theory Spec2Isabelle
  imports Main
begin

section \<open>JavaScript values and the string primitives the module calls\<close>

text \<open>
  A JavaScript string is a sequence of code units; each \<^typ>\<open>char\<close> of a \<^typ>\<open>string\<close> stands
  for one code unit. Every string literal of \<^verbatim>\<open>version.ts\<close> is ASCII. The other primitive
  values are kept so that the run-time type test \<^verbatim>\<open>typeof arg === "string"\<close> has something
  to reject; numbers are integers, which is all this module ever renders.
\<close>

datatype jsval = JStr string | JNum int | JBool bool | JUndefined | JNull

text \<open>
  What a \<^verbatim>\<open>throw\<close> or a rejected promise carries: an instance of \<^verbatim>\<open>Error\<close> with its
  \<^verbatim>\<open>message\<close>, or any other value.
\<close>

datatype thrown = Error string | NonError jsval

text \<open>A \<^verbatim>\<open>Date\<close>, as milliseconds since the epoch.\<close>

type_synonym date = int

definition nl :: string where
  "nl = [CHR 0x0A]"

text \<open>\<^verbatim>\<open>s.startsWith(search)\<close>\<close>

definition startsWith :: "string \<Rightarrow> string \<Rightarrow> bool" where
  "startsWith s search = (take (length search) s = search)"

text \<open>\<^verbatim>\<open>s.charAt(i)\<close>: the code unit at \<open>i\<close> as a string, the empty string out of range.\<close>

definition charAt :: "string \<Rightarrow> nat \<Rightarrow> string" where
  "charAt s i = (if i < length s then [s ! i] else [])"

text \<open>\<^verbatim>\<open>s.substring(start)\<close> with one argument: from \<open>start\<close> to the end.\<close>

definition substring :: "string \<Rightarrow> nat \<Rightarrow> string" where
  "substring s start = drop start s"

text \<open>\<^verbatim>\<open>s.includes(search)\<close>, the test behind \<^verbatim>\<open>assertStringIncludes\<close>.\<close>

fun strIncludes :: "string \<Rightarrow> string \<Rightarrow> bool" where
  "strIncludes [] search = (search = [])"
| "strIncludes (c # cs) search = (startsWith (c # cs) search \<or> strIncludes cs search)"

text \<open>The decimal rendering of a non-negative integer inside a template literal.\<close>

definition digit :: "nat \<Rightarrow> char" where
  "digit d = ''0123456789'' ! d"

fun digits :: "nat \<Rightarrow> string" where
  "digits n = (if n < 10 then [digit n] else digits (n div 10) @ [digit (n mod 10)])"

declare digits.simps [simp del]

text \<open>\<^verbatim>\<open>`${v}`\<close>: the string a template literal substitutes for a primitive value.\<close>

fun templateString :: "jsval \<Rightarrow> string" where
  "templateString (JStr s) = s"
| "templateString (JNum i) = (if i < 0 then ''-'' @ digits (nat (- i)) else digits (nat i))"
| "templateString (JBool b) = (if b then ''true'' else ''false'')"
| "templateString JUndefined = ''undefined''"
| "templateString JNull = ''null''"

text \<open>
  \<^verbatim>\<open>String.prototype.toUpperCase\<close> on ASCII strings: the letters \<open>a\<close> to \<open>z\<close> move to
  \<open>A\<close> to \<open>Z\<close>, every other ASCII code unit stays. It stands in for the built-in where a
  concrete input is evaluated; the functions below take the built-in as an argument.
\<close>

definition asciiUpperChar :: "char \<Rightarrow> char" where
  "asciiUpperChar c =
     (if (97::nat) \<le> of_char c \<and> of_char c \<le> (122::nat) then char_of (of_char c - (32::nat)) else c)"

definition asciiToUpperCase :: "string \<Rightarrow> string" where
  "asciiToUpperCase s = map asciiUpperChar s"


section \<open>The host: Deno's metadata and the services behind the imports\<close>

text \<open>
  \<^verbatim>\<open>Deno.lstat\<close> resolves to a \<^verbatim>\<open>FileInfo\<close> whose \<^verbatim>\<open>mtime\<close> is a \<^verbatim>\<open>Date\<close> or
  \<^verbatim>\<open>null\<close>, or rejects.
\<close>

record fileInfo =
  isFile :: bool
  mtime :: "date option"

text \<open>
  Everything \<^verbatim>\<open>version.ts\<close> reads from outside itself: the properties of \<^verbatim>\<open>Deno\<close> and
  \<^verbatim>\<open>navigator\<close>, the two functions imported from \<^verbatim>\<open>jsr:@std/path\<close>, the file system as
  \<^verbatim>\<open>Deno.lstat\<close> sees it, and the built-ins \<^verbatim>\<open>Date.prototype.toUTCString\<close> and
  \<^verbatim>\<open>String.prototype.toUpperCase\<close>. A function that can throw or reject returns a sum.
\<close>

record runtime =
  mainModule :: string
  denoVersion :: string
  buildOs :: string
  buildArch :: string
  hardwareConcurrency :: nat
  basename :: "string \<Rightarrow> string"
  fromFileUrl :: "string \<Rightarrow> thrown + string"
  lstat :: "string \<Rightarrow> thrown + fileInfo"
  toUTCString :: "date \<Rightarrow> string"
  toUpperCase :: "string \<Rightarrow> string"

text \<open>The calls that leave the module, in the order they are made.\<close>

datatype call = FromFileUrl string | Lstat string


section \<open>The utility functions\<close>

text \<open>\<^verbatim>\<open>isString\<close>: \<^verbatim>\<open>typeof arg === "string"\<close>.\<close>

definition isString :: "jsval \<Rightarrow> bool" where
  "isString arg = (case arg of JStr _ \<Rightarrow> True | _ \<Rightarrow> False)"

text \<open>
  \<^verbatim>\<open>toTitleCaseFirst\<close>:
  \<^verbatim>\<open>if (!isString(str) || str.length === 0) return str;\<close>
  \<^verbatim>\<open>return str = str.charAt(0).toUpperCase() + str.substring(1);\<close>
\<close>

definition toTitleCaseFirst :: "(string \<Rightarrow> string) \<Rightarrow> jsval \<Rightarrow> jsval" where
  "toTitleCaseFirst upper str =
     (if \<not> isString str then str
      else case str of
        JStr s \<Rightarrow> if length s = 0 then str else JStr (upper (charAt s 0) @ substring s 1)
      | _ \<Rightarrow> str)"

text \<open>
  \<^verbatim>\<open>getFileModTime\<close>. The promise it returns is the first component: \<open>Inr\<close> the string it
  resolves to, \<open>Inl\<close> the value it rejects with. The second component lists the outside calls
  made on the way. \<^verbatim>\<open>fromFileUrl\<close> is called outside the \<^verbatim>\<open>try\<close>, so what it throws
  rejects the promise as it is; whatever \<^verbatim>\<open>Deno.lstat\<close> rejects with is replaced by the
  \<^verbatim>\<open>catch\<close> block.
\<close>

definition getFileModTime :: "runtime \<Rightarrow> string \<Rightarrow> (thrown + string) \<times> call list" where
  "getFileModTime rt filePath =
     (if length filePath < 1 then
        (Inl (Error ''UNKNOWN as no file path available.''), [])
      else if startsWith filePath ''https://'' \<or> startsWith filePath ''http://'' then
        (Inl (Error ''UNKNOWN due to remote execution.''), [])
      else
        let (converted, calls) =
              (if startsWith filePath ''file:''
               then (fromFileUrl rt filePath, [FromFileUrl filePath])
               else (Inr filePath, []))
        in case converted of
             Inl e \<Rightarrow> (Inl e, calls)
           | Inr path \<Rightarrow>
               (case lstat rt path of
                  Inr info \<Rightarrow>
                    (case mtime info of
                       Some t \<Rightarrow> (Inr (toUTCString rt t), calls @ [Lstat path])
                     | None \<Rightarrow>
                         (Inr ''UNKNOWN no file modification time available.'',
                          calls @ [Lstat path]))
                | Inl _ \<Rightarrow>
                    (Inl (Error (''UNKNOWN Deno.lstat failed for '' @ path)),
                     calls @ [Lstat path])))"


section \<open>The banner\<close>

text \<open>
  \<^verbatim>\<open>Partial<VersionOptions>\<close>: an object read by key. Each of its properties has the type
  \<^verbatim>\<open>string | undefined\<close>, so a key is missing (\<open>None\<close>), bound to a string, or present and
  bound to \<^verbatim>\<open>undefined\<close>.
\<close>

datatype property = StringValue string | UndefinedValue

type_synonym VersionOptions = "string \<rightharpoonup> property"

text \<open>
  One destructured property with its default, \<^verbatim>\<open>{ key = dflt } = obj\<close>: the default is
  taken when reading the key yields \<^verbatim>\<open>undefined\<close>, whether the key is missing or bound to
  \<^verbatim>\<open>undefined\<close>.
\<close>

definition destructure :: "VersionOptions \<Rightarrow> string \<Rightarrow> string \<Rightarrow> string" where
  "destructure obj key dflt =
     (case obj key of
        None \<Rightarrow> dflt
      | Some UndefinedValue \<Rightarrow> dflt
      | Some (StringValue v) \<Rightarrow> v)"

text \<open>
  The template literal that \<^verbatim>\<open>version\<close> returns, over the five local variables it
  substitutes; written out piece by piece, in the order of the source.
\<close>

definition banner :: "runtime \<Rightarrow> string \<Rightarrow> string \<Rightarrow> string \<Rightarrow> string \<Rightarrow> string \<Rightarrow> string" where
  "banner rt versionV copyrightName licenseUrl crYear fileModTime =
     nl
     @ '' Application '' @ [CHR 0x27] @ basename rt (mainModule rt) @ [CHR 0x27]
     @ '' is version '' @ [CHR 0x27] @ versionV @ [CHR 0x27] @ ''.'' @ nl
     @ '' Last modified on: '' @ fileModTime @ nl
     @ '' Running Deno version '' @ [CHR 0x27] @ denoVersion rt @ [CHR 0x27]
     @ '' on '' @ [CHR 0x27]
     @ templateString (toTitleCaseFirst (toUpperCase rt) (JStr (buildOs rt)))
     @ '' ['' @ buildArch rt @ '' with '' @ digits (hardwareConcurrency rt)
     @ '' CPU cores]'' @ [CHR 0x27] @ ''.'' @ nl
     @ '' Copyright (c) '' @ crYear @ '' '' @ copyrightName @ ''.'' @ nl
     @ nl
     @ '' For licenses and further information visit:'' @ nl
     @ ''   - '' @ licenseUrl @ nl
     @ ''   - https://deno.land/'' @ nl
     @ ''   ''"

text \<open>
  The \<^verbatim>\<open>catch (err)\<close> block of \<^verbatim>\<open>version\<close>: the text that stands for the modification
  time when the lookup rejected with \<open>err\<close>.
\<close>

definition catchText :: "thrown \<Rightarrow> string" where
  "catchText err =
     (case err of
        Error message \<Rightarrow> message
      | NonError _ \<Rightarrow> ''UNKNOWN unspecified error.'')"

text \<open>
  \<^verbatim>\<open>version\<close>. \<open>None\<close> is the call without an argument. The \<^verbatim>\<open>try\<close> around the awaited
  \<^verbatim>\<open>getFileModTime(Deno.mainModule)\<close> catches every rejection. The result is the promise
  the function returns and the outside calls made.
\<close>

definition version :: "runtime \<Rightarrow> VersionOptions option \<Rightarrow> (thrown + string) \<times> call list" where
  "version rt verData =
     (let obj = (case verData of None \<Rightarrow> Map.empty | Some d \<Rightarrow> d);
          versionV = destructure obj ''version'' ''0.0.1 [DEFAULT]'';
          copyrightName = destructure obj ''copyrightName'' ''Deno Dinosaur <deno@deno.land> [DEFAULT]'';
          licenseUrl = destructure obj ''licenseUrl'' ''https://github.com/<username_here>/ [DEFAULT]'';
          crYear = destructure obj ''crYear'' ''2021 [DEFAULT]'';
          (outcome, calls) = getFileModTime rt (mainModule rt);
          fileModTime = (case outcome of Inr t \<Rightarrow> t | Inl err \<Rightarrow> catchText err)
      in (Inr (banner rt versionV copyrightName licenseUrl crYear fileModTime), calls))"


section \<open>Vocabulary for the statements and example hosts\<close>

text \<open>\<^verbatim>\<open>lines.join("\n")\<close>: the lines of a text, a line feed between each two.\<close>

fun joinLines :: "string list \<Rightarrow> string" where
  "joinLines [] = []"
| "joinLines [l] = l"
| "joinLines (l # ls) = l @ nl @ joinLines ls"

text \<open>
  \<^verbatim>\<open>Date.prototype.toUTCString\<close> for a valid date, after ECMAScript's \<^verbatim>\<open>Day\<close>,
  \<^verbatim>\<open>WeekDay\<close> and civil-date arithmetic on the proleptic Gregorian calendar. The example
  hosts use it; the theorems hold for any \<^const>\<open>toUTCString\<close>.
\<close>

definition pad2 :: "nat \<Rightarrow> string" where
  "pad2 n = (if n < 10 then ''0'' @ digits n else digits n)"

definition pad4 :: "nat \<Rightarrow> string" where
  "pad4 n = replicate (4 - length (digits n)) (CHR ''0'') @ digits n"

definition weekDayName :: "int \<Rightarrow> string" where
  "weekDayName days = [''Sun'', ''Mon'', ''Tue'', ''Wed'', ''Thu'', ''Fri'', ''Sat''] ! nat ((days + 4) mod 7)"

definition monthName :: "int \<Rightarrow> string" where
  "monthName m =
     [''Jan'', ''Feb'', ''Mar'', ''Apr'', ''May'', ''Jun'',
      ''Jul'', ''Aug'', ''Sep'', ''Oct'', ''Nov'', ''Dec''] ! nat (m - 1)"

text \<open>Year, month and day of the month of a day number counted from 1 January 1970.\<close>

definition civilFromDays :: "int \<Rightarrow> int \<times> int \<times> int" where
  "civilFromDays days =
     (let z = days + 719468;
          era = z div 146097;
          doe = z - era * 146097;
          yoe = (doe - doe div 1460 + doe div 36524 - doe div 146096) div 365;
          doy = doe - (365 * yoe + yoe div 4 - yoe div 100);
          mp = (5 * doy + 2) div 153;
          d = doy - (153 * mp + 2) div 5 + 1;
          m = (if mp < 10 then mp + 3 else mp - 9);
          y = yoe + era * 400 + (if m \<le> 2 then 1 else 0)
      in (y, m, d))"

definition utcString :: "date \<Rightarrow> string" where
  "utcString t =
     (let days = t div 86400000;
          ms = t mod 86400000;
          (y, m, d) = civilFromDays days
      in weekDayName days @ '', '' @ pad2 (nat d) @ '' '' @ monthName m @ '' ''
         @ (if y < 0 then ''-'' else []) @ pad4 (nat \<bar>y\<bar>) @ '' ''
         @ pad2 (nat (ms div 3600000)) @ '':'' @ pad2 (nat (ms div 60000 mod 60)) @ '':''
         @ pad2 (nat (ms div 1000 mod 60)) @ '' GMT'')"

text \<open>
  \<^verbatim>\<open>basename\<close> and \<^verbatim>\<open>fromFileUrl\<close> of \<^verbatim>\<open>@std/path\<close> on a POSIX host, for the inputs
  the examples use: a path without a trailing separator, and a \<^verbatim>\<open>file://\<close> URL with an
  empty host and no percent escapes; any other URL is refused with a \<^verbatim>\<open>TypeError\<close>.
\<close>

definition posixBasename :: "string \<Rightarrow> string" where
  "posixBasename p = rev (takeWhile (\<lambda>c. c \<noteq> CHR ''/'') (rev p))"

definition posixFromFileUrl :: "string \<Rightarrow> thrown + string" where
  "posixFromFileUrl url =
     (if startsWith url ''file:///'' then Inr (drop 7 url)
      else Inl (Error ''URL must be a file URL''))"

text \<open>A file system as a table from paths to what \<^verbatim>\<open>Deno.lstat\<close> resolves to.\<close>

definition lstatIn :: "(string \<times> fileInfo) list \<Rightarrow> string \<Rightarrow> thrown + fileInfo" where
  "lstatIn files path =
     (case map_of files path of
        Some info \<Rightarrow> Inr info
      | None \<Rightarrow> Inl (Error ''No such file or directory (os error 2)''))"

text \<open>
  A program run from a local file on an Apple-silicon Mac. The file system holds the program,
  and one entry whose status has no modification time.
\<close>

definition localHost :: runtime where
  "localHost =
     \<lparr> mainModule = ''file:///home/user/qpass.ts'',
       denoVersion = ''2.4.4'',
       buildOs = ''darwin'',
       buildArch = ''aarch64'',
       hardwareConcurrency = 14,
       basename = posixBasename,
       fromFileUrl = posixFromFileUrl,
       lstat = lstatIn
         [(''/home/user/qpass.ts'', \<lparr> isFile = True, mtime = Some 1756127897000 \<rparr>),
          (''/mnt/share/tool.ts'', \<lparr> isFile = True, mtime = None \<rparr>)],
       toUTCString = utcString,
       toUpperCase = asciiToUpperCase \<rparr>"

text \<open>The same program run from a network URL.\<close>

definition remoteHost :: runtime where
  "remoteHost = localHost \<lparr> mainModule := ''https://example.com/qpass.ts'' \<rparr>"

text \<open>A host whose URL conversion throws a value that is not an \<^verbatim>\<open>Error\<close>.\<close>

definition throwingHost :: runtime where
  "throwingHost = localHost \<lparr> fromFileUrl := (\<lambda>url. Inl (NonError (JStr ''conversion refused''))) \<rparr>"

text \<open>The options of the module's own demonstration run.\<close>

definition demoOptions :: VersionOptions where
  "demoOptions =
     [''version'' \<mapsto> StringValue ''1.0.6'',
      ''copyrightName'' \<mapsto> StringValue ''John Doe <example.com>'',
      ''licenseUrl'' \<mapsto> StringValue ''https://github.com/example/my_application/'',
      ''crYear'' \<mapsto> StringValue ''2022'']"

text \<open>
  An options object with an empty version, a copyright year, and a license URL that is
  present but bound to \<^verbatim>\<open>undefined\<close>.
\<close>

definition sparseOptions :: VersionOptions where
  "sparseOptions =
     [''version'' \<mapsto> StringValue [],
      ''licenseUrl'' \<mapsto> UndefinedValue,
      ''crYear'' \<mapsto> StringValue ''2023-2025'']"


section \<open>Facts about the string primitives and the example hosts\<close>

lemma startsWith_iff: "startsWith s search \<longleftrightarrow> (\<exists>r. s = search @ r)"
proof
  assume "startsWith s search"
  then have "s = search @ drop (length search) s"
    unfolding startsWith_def by (metis append_take_drop_id)
  then show "\<exists>r. s = search @ r" ..
next
  assume "\<exists>r. s = search @ r"
  then show "startsWith s search" by (auto simp: startsWith_def)
qed

lemma startsWith_Nil [simp]: "startsWith [] search \<longleftrightarrow> search = []"
  by (auto simp: startsWith_def)

lemma startsWith_Cons_Cons [simp]:
  "startsWith (c # cs) (d # ds) \<longleftrightarrow> c = d \<and> startsWith cs ds"
  by (auto simp: startsWith_def)

lemma startsWith_any_Nil [simp]: "startsWith s []"
  by (simp add: startsWith_def)

lemma strIncludes_iff: "strIncludes s search \<longleftrightarrow> (\<exists>p q. s = p @ search @ q)"
proof (induction s)
  case Nil
  then show ?case by simp
next
  case (Cons c cs)
  show ?case
  proof
    assume "strIncludes (c # cs) search"
    then consider "startsWith (c # cs) search" | "strIncludes cs search" by auto
    then show "\<exists>p q. c # cs = p @ search @ q"
    proof cases
      case 1
      then obtain r where "c # cs = search @ r" by (auto simp: startsWith_iff)
      then have "c # cs = [] @ search @ r" by simp
      then show ?thesis by blast
    next
      case 2
      with Cons.IH obtain p q where "cs = p @ search @ q" by blast
      then have "c # cs = (c # p) @ search @ q" by simp
      then show ?thesis by blast
    qed
  next
    assume "\<exists>p q. c # cs = p @ search @ q"
    then obtain p q where pq: "c # cs = p @ search @ q" by blast
    show "strIncludes (c # cs) search"
    proof (cases p)
      case Nil
      with pq have "startsWith (c # cs) search" by (auto simp: startsWith_iff)
      then show ?thesis by simp
    next
      case (Cons a p')
      with pq have "cs = p' @ search @ q" by simp
      with Cons.IH have "strIncludes cs search" by blast
      then show ?thesis by simp
    qed
  qed
qed

lemma strIncludesI: "s = p @ search @ q \<Longrightarrow> strIncludes s search"
  by (auto simp: strIncludes_iff)

lemma utcString_example: "utcString 1756127897000 = ''Mon, 25 Aug 2025 13:18:17 GMT''"
  by code_simp

lemma digits_14: "digits 14 = ''14''"
  by code_simp

lemma localHost_simps:
  "mainModule localHost = ''file:///home/user/qpass.ts''"
  "denoVersion localHost = ''2.4.4''"
  "buildOs localHost = ''darwin''"
  "buildArch localHost = ''aarch64''"
  "hardwareConcurrency localHost = 14"
  "basename localHost = posixBasename"
  "fromFileUrl localHost = posixFromFileUrl"
  "toUTCString localHost = utcString"
  "toUpperCase localHost = asciiToUpperCase"
  by (simp_all add: localHost_def)

lemma localHost_lstat:
  "lstat localHost ''/home/user/qpass.ts'' = Inr \<lparr> isFile = True, mtime = Some 1756127897000 \<rparr>"
  "lstat localHost ''/mnt/share/tool.ts'' = Inr \<lparr> isFile = True, mtime = None \<rparr>"
  "lstat localHost ''/home/user/missing.ts'' = Inl (Error ''No such file or directory (os error 2)'')"
  by (simp_all add: localHost_def lstatIn_def)

lemma asciiToUpperCase_d: "asciiToUpperCase ''d'' = ''D''"
  by code_simp

lemma asciiToUpperCase_l: "asciiToUpperCase ''l'' = ''L''"
  by code_simp

lemma localHost_basename: "posixBasename ''file:///home/user/qpass.ts'' = ''qpass.ts''"
  by (simp add: posixBasename_def)

lemma localHost_os:
  "templateString (toTitleCaseFirst asciiToUpperCase (JStr ''darwin'')) = ''Darwin''"
  by (simp add: toTitleCaseFirst_def isString_def charAt_def substring_def
      asciiToUpperCase_d)

lemma localHost_fileModTime:
  "getFileModTime localHost ''file:///home/user/qpass.ts'' =
     (Inr ''Mon, 25 Aug 2025 13:18:17 GMT'',
      [FromFileUrl ''file:///home/user/qpass.ts'', Lstat ''/home/user/qpass.ts''])"
  by (simp add: getFileModTime_def localHost_simps posixFromFileUrl_def localHost_lstat
      utcString_example)

lemma remoteHost_rejects:
  "fst (getFileModTime remoteHost (mainModule remoteHost)) = Inl (Error ''UNKNOWN due to remote execution.'')"
  by (simp add: remoteHost_def localHost_def getFileModTime_def)

lemma throwingHost_rejects:
  "fst (getFileModTime throwingHost (mainModule throwingHost)) = Inl (NonError (JStr ''conversion refused''))"
  by (simp add: throwingHost_def localHost_def getFileModTime_def)

lemma demoOptions_simps:
  "destructure demoOptions ''version'' d1 = ''1.0.6''"
  "destructure demoOptions ''copyrightName'' d2 = ''John Doe <example.com>''"
  "destructure demoOptions ''licenseUrl'' d3 = ''https://github.com/example/my_application/''"
  "destructure demoOptions ''crYear'' d4 = ''2022''"
  by (simp_all add: destructure_def demoOptions_def)

lemma destructure_empty: "destructure Map.empty key dflt = dflt"
  by (simp add: destructure_def)

lemma sparseOptions_simps:
  "sparseOptions ''version'' = Some (StringValue [])"
  "sparseOptions ''copyrightName'' = None"
  "sparseOptions ''licenseUrl'' = Some UndefinedValue"
  "sparseOptions ''crYear'' = Some (StringValue ''2023-2025'')"
  by (simp_all add: sparseOptions_def)


section \<open>The modification-time lookup\<close>

text \<open>
  Past the two guards, \<^const>\<open>getFileModTime\<close> is decided by the status of the path it looks
  up: the path itself, or what \<^verbatim>\<open>fromFileUrl\<close> makes of a \<^verbatim>\<open>file:\<close> URL.
\<close>

lemma getFileModTime_lookup:
  assumes "filePath \<noteq> []"
    and "\<not> startsWith filePath ''https://''" and "\<not> startsWith filePath ''http://''"
    and "(if startsWith filePath ''file:'' then fromFileUrl rt filePath else Inr filePath) = Inr path"
  shows "getFileModTime rt filePath =
           ((case lstat rt path of
               Inr info \<Rightarrow> (case mtime info of
                               Some t \<Rightarrow> Inr (toUTCString rt t)
                             | None \<Rightarrow> Inr ''UNKNOWN no file modification time available.'')
             | Inl _ \<Rightarrow> Inl (Error (''UNKNOWN Deno.lstat failed for '' @ path))),
            (if startsWith filePath ''file:'' then [FromFileUrl filePath] else []) @ [Lstat path])"
proof -
  from assms(1) have len: "\<not> length filePath < 1" by (cases filePath) auto
  show ?thesis
  proof (cases "startsWith filePath ''file:''")
    case True
    with assms(4) have "fromFileUrl rt filePath = Inr path" by simp
    with True len assms(2,3) show ?thesis
      by (simp add: getFileModTime_def split: sum.splits option.splits)
  next
    case False
    with assms(4) have "path = filePath" by simp
    with False len assms(2,3) show ?thesis
      by (simp add: getFileModTime_def split: sum.splits option.splits)
  qed
qed

text \<open>
  Claim C8. For the empty path \<^const>\<open>getFileModTime\<close> rejects with the Error
  \<^verbatim>\<open>UNKNOWN as no file path available.\<close>, and it has made no outside call: no URL conversion
  and no file-system lookup. The check is the first statement of the function.
\<close>

theorem getFileModTime_empty_path:
  "getFileModTime rt [] = (Inl (Error ''UNKNOWN as no file path available.''), [])"
  by (simp add: getFileModTime_def)

theorem getFileModTime_empty_path_witness:
  "getFileModTime localHost [] = (Inl (Error ''UNKNOWN as no file path available.''), [])"
  using getFileModTime_empty_path [of localHost] by simp

text \<open>
  Claim C5, as amended. For every path that starts with \<^verbatim>\<open>https://\<close> or \<^verbatim>\<open>http://\<close>,
  spelled so, the two prefixes the code tests for, \<^const>\<open>getFileModTime\<close> rejects with the
  Error \<^verbatim>\<open>UNKNOWN due to remote execution.\<close> and has made no outside call, so no file-system
  lookup.
\<close>

theorem getFileModTime_remote:
  assumes "startsWith filePath ''https://'' \<or> startsWith filePath ''http://''"
  shows "getFileModTime rt filePath = (Inl (Error ''UNKNOWN due to remote execution.''), [])"
proof -
  from assms have "filePath \<noteq> []" by auto
  then have "\<not> length filePath < 1" by (cases filePath) auto
  with assms show ?thesis by (simp add: getFileModTime_def)
qed

theorem getFileModTime_remote_witness:
  "startsWith ''https://example.com/qpass.ts'' ''https://''
   \<and> getFileModTime localHost ''https://example.com/qpass.ts''
       = (Inl (Error ''UNKNOWN due to remote execution.''), [])
   \<and> getFileModTime localHost ''http://localhost:8000/main.ts''
       = (Inl (Error ''UNKNOWN due to remote execution.''), [])"
  using getFileModTime_remote [of "''https://example.com/qpass.ts''" localHost]
    getFileModTime_remote [of "''http://localhost:8000/main.ts''" localHost]
  by simp

text \<open>
  The claim as first stated, for every remote network-URL scheme prefix, is false: a path with
  the scheme \<^verbatim>\<open>ftp://\<close>, and one with \<^verbatim>\<open>HTTPS://\<close> in upper case, pass both guards. On
  \<^const>\<open>localHost\<close> each is looked up in the file system, and the rejection is the one of the
  failed lookup, not the one of remote execution.
\<close>

theorem getFileModTime_other_scheme_looked_up:
  "startsWith ''ftp://example.com/qpass.ts'' ''ftp://''
   \<and> getFileModTime localHost ''ftp://example.com/qpass.ts''
       = (Inl (Error ''UNKNOWN Deno.lstat failed for ftp://example.com/qpass.ts''),
          [Lstat ''ftp://example.com/qpass.ts''])
   \<and> startsWith ''HTTPS://example.com/qpass.ts'' ''HTTPS://''
   \<and> getFileModTime localHost ''HTTPS://example.com/qpass.ts''
       = (Inl (Error ''UNKNOWN Deno.lstat failed for HTTPS://example.com/qpass.ts''),
          [Lstat ''HTTPS://example.com/qpass.ts''])"
  by (simp add: getFileModTime_def localHost_def lstatIn_def)

text \<open>
  Claim C4, as amended. Take a path that is neither empty nor remote, and let the
  file-system lookup of it (of the converted path, for a \<^verbatim>\<open>file:\<close> URL) succeed. If the status
  carries a modification time, \<^const>\<open>getFileModTime\<close> resolves to its \<^verbatim>\<open>toUTCString()\<close>
  rendering. If the status carries none, \<^const>\<open>getFileModTime\<close> does not reject: it resolves
  to the text \<^verbatim>\<open>UNKNOWN no file modification time available.\<close>
\<close>

theorem getFileModTime_lookup_succeeds:
  assumes "filePath \<noteq> []"
    and "\<not> startsWith filePath ''https://''" and "\<not> startsWith filePath ''http://''"
    and "(if startsWith filePath ''file:'' then fromFileUrl rt filePath else Inr filePath) = Inr path"
    and "lstat rt path = Inr info"
  shows "fst (getFileModTime rt filePath) =
           Inr (case mtime info of
                  Some t \<Rightarrow> toUTCString rt t
                | None \<Rightarrow> ''UNKNOWN no file modification time available.'')"
  using getFileModTime_lookup [OF assms(1-4)] assms(5)
  by (simp split: option.splits)

theorem getFileModTime_lookup_succeeds_witness:
  "lstat localHost ''/home/user/qpass.ts'' = Inr \<lparr> isFile = True, mtime = Some 1756127897000 \<rparr>
   \<and> fst (getFileModTime localHost ''/home/user/qpass.ts'') = Inr ''Mon, 25 Aug 2025 13:18:17 GMT''
   \<and> lstat localHost ''/mnt/share/tool.ts'' = Inr \<lparr> isFile = True, mtime = None \<rparr>
   \<and> fst (getFileModTime localHost ''file:///mnt/share/tool.ts'')
       = Inr ''UNKNOWN no file modification time available.''"
  using getFileModTime_lookup_succeeds
    [of "''/home/user/qpass.ts''" localHost "''/home/user/qpass.ts''"
        "\<lparr> isFile = True, mtime = Some 1756127897000 \<rparr>"]
    getFileModTime_lookup_succeeds
    [of "''file:///mnt/share/tool.ts''" localHost "''/mnt/share/tool.ts''"
        "\<lparr> isFile = True, mtime = None \<rparr>"]
  by (simp add: localHost_simps localHost_lstat utcString_example posixFromFileUrl_def)

text \<open>
  The claim as first stated, that a status without a modification time makes the lookup fail,
  is false: on \<^const>\<open>localHost\<close> the status of \<^verbatim>\<open>/mnt/share/tool.ts\<close> has no modification time,
  and \<^const>\<open>getFileModTime\<close> resolves.
\<close>

theorem getFileModTime_no_mtime_resolves:
  "lstat localHost ''/mnt/share/tool.ts'' = Inr \<lparr> isFile = True, mtime = None \<rparr>
   \<and> getFileModTime localHost ''/mnt/share/tool.ts''
       = (Inr ''UNKNOWN no file modification time available.'', [Lstat ''/mnt/share/tool.ts''])
   \<and> \<not> isl (fst (getFileModTime localHost ''/mnt/share/tool.ts''))"
  by (simp add: getFileModTime_def localHost_lstat)

text \<open>
  Claim C6. Let \<open>url\<close> start with \<^verbatim>\<open>file:\<close>, let \<^verbatim>\<open>fromFileUrl\<close> convert it to \<open>path\<close>,
  a plain file-system path (not empty, and with none of the prefixes \<^verbatim>\<open>https://\<close>,
  \<^verbatim>\<open>http://\<close>, \<^verbatim>\<open>file:\<close>, as every absolute path is), and let that path exist: its
  lookup succeeds. Then \<^const>\<open>getFileModTime\<close> resolves on the URL, to the same value as on
  the plain path, and the URL was converted before the one lookup, which is of \<open>path\<close>.
\<close>

theorem getFileModTime_file_url:
  assumes "startsWith url ''file:''"
    and "fromFileUrl rt url = Inr path"
    and "path \<noteq> []"
    and "\<not> startsWith path ''https://''" and "\<not> startsWith path ''http://''"
    and "\<not> startsWith path ''file:''"
    and "lstat rt path = Inr info"
  shows "(\<exists>s. fst (getFileModTime rt url) = Inr s)
         \<and> fst (getFileModTime rt url) = fst (getFileModTime rt path)
         \<and> snd (getFileModTime rt url) = [FromFileUrl url, Lstat path]"
proof -
  from assms(1) obtain r where url: "url = ''file:'' @ r" by (auto simp: startsWith_iff)
  then have u1: "url \<noteq> []" and u2: "\<not> startsWith url ''https://''" and u3: "\<not> startsWith url ''http://''"
    by simp_all
  from assms(1,2) have u4: "(if startsWith url ''file:'' then fromFileUrl rt url else Inr url) = Inr path"
    by simp
  from assms(6) have p4: "(if startsWith path ''file:'' then fromFileUrl rt path else Inr path) = Inr path"
    by simp
  note a = getFileModTime_lookup [OF u1 u2 u3 u4]
  note b = getFileModTime_lookup [OF assms(3) assms(4) assms(5) p4]
  from a b assms(1,6,7) show ?thesis
    by (simp split: option.splits)
qed

theorem getFileModTime_file_url_witness:
  "startsWith ''file:///home/user/qpass.ts'' ''file:''
   \<and> fromFileUrl localHost ''file:///home/user/qpass.ts'' = Inr ''/home/user/qpass.ts''
   \<and> fst (getFileModTime localHost ''file:///home/user/qpass.ts'') = Inr ''Mon, 25 Aug 2025 13:18:17 GMT''
   \<and> fst (getFileModTime localHost ''/home/user/qpass.ts'') = Inr ''Mon, 25 Aug 2025 13:18:17 GMT''
   \<and> snd (getFileModTime localHost ''file:///home/user/qpass.ts'')
       = [FromFileUrl ''file:///home/user/qpass.ts'', Lstat ''/home/user/qpass.ts'']"
proof -
  have conv: "fromFileUrl localHost ''file:///home/user/qpass.ts'' = Inr ''/home/user/qpass.ts''"
    by (simp add: localHost_simps posixFromFileUrl_def)
  have plain: "fst (getFileModTime localHost ''/home/user/qpass.ts'') = Inr ''Mon, 25 Aug 2025 13:18:17 GMT''"
    by (simp add: getFileModTime_def localHost_simps localHost_lstat utcString_example)
  from getFileModTime_file_url
    [of "''file:///home/user/qpass.ts''" localHost "''/home/user/qpass.ts''"
        "\<lparr> isFile = True, mtime = Some 1756127897000 \<rparr>"] conv plain
  show ?thesis by (simp add: localHost_lstat)
qed

text \<open>
  Claim C7. Take a path that is neither empty nor remote, and let the file-system lookup of it
  (of the converted path, for a \<^verbatim>\<open>file:\<close> URL) fail, whatever it rejects with. Then
  \<^const>\<open>getFileModTime\<close> rejects with the Error \<^verbatim>\<open>UNKNOWN Deno.lstat failed for\<close> followed by
  the path that was looked up, which is the given path unless that was a \<^verbatim>\<open>file:\<close> URL.
\<close>

theorem getFileModTime_lookup_fails:
  assumes "filePath \<noteq> []"
    and "\<not> startsWith filePath ''https://''" and "\<not> startsWith filePath ''http://''"
    and "(if startsWith filePath ''file:'' then fromFileUrl rt filePath else Inr filePath) = Inr path"
    and "lstat rt path = Inl e"
  shows "fst (getFileModTime rt filePath) = Inl (Error (''UNKNOWN Deno.lstat failed for '' @ path))
         \<and> (\<not> startsWith filePath ''file:'' \<longrightarrow> path = filePath)"
  using getFileModTime_lookup [OF assms(1-4)] assms(4,5)
  by (simp split: if_splits)

theorem getFileModTime_lookup_fails_witness:
  "lstat localHost ''/home/user/missing.ts'' = Inl (Error ''No such file or directory (os error 2)'')
   \<and> fst (getFileModTime localHost ''/home/user/missing.ts'')
       = Inl (Error ''UNKNOWN Deno.lstat failed for /home/user/missing.ts'')
   \<and> fst (getFileModTime localHost ''file:///home/user/missing.ts'')
       = Inl (Error ''UNKNOWN Deno.lstat failed for /home/user/missing.ts'')"
  using getFileModTime_lookup_fails
    [of "''/home/user/missing.ts''" localHost "''/home/user/missing.ts''"
        "Error ''No such file or directory (os error 2)''"]
    getFileModTime_lookup_fails
    [of "''file:///home/user/missing.ts''" localHost "''/home/user/missing.ts''"
        "Error ''No such file or directory (os error 2)''"]
  by (simp add: localHost_simps localHost_lstat posixFromFileUrl_def)


section \<open>Capitalising the first character\<close>

text \<open>
  Claim C9. \<^const>\<open>toTitleCaseFirst\<close> returns a value that is not a string, and the empty
  string, unchanged. Of a non-empty string it upper-cases the first code unit, with whatever
  \<^verbatim>\<open>toUpperCase\<close> makes of that one code unit, and leaves the rest as it is. With the ASCII
  upper-casing, \<^verbatim>\<open>darwin\<close> becomes \<^verbatim>\<open>Darwin\<close>.
\<close>

theorem toTitleCaseFirst_cases:
  "(\<not> isString v \<longrightarrow> toTitleCaseFirst upper v = v)
   \<and> toTitleCaseFirst upper (JStr []) = JStr []
   \<and> toTitleCaseFirst upper (JStr (c # cs)) = JStr (upper [c] @ cs)
   \<and> toTitleCaseFirst asciiToUpperCase (JStr ''darwin'') = JStr ''Darwin''"
  by (simp add: toTitleCaseFirst_def isString_def charAt_def substring_def asciiToUpperCase_d)

theorem toTitleCaseFirst_cases_witness:
  "\<not> isString (JNum 42)
   \<and> toTitleCaseFirst asciiToUpperCase (JNum 42) = JNum 42
   \<and> toTitleCaseFirst asciiToUpperCase (JStr ''linux'') = JStr ''Linux''"
  using toTitleCaseFirst_cases [of "JNum 42" asciiToUpperCase "CHR ''l''" "''inux''"]
  by (simp add: isString_def asciiToUpperCase_l)


section \<open>What version returns\<close>

text \<open>
  \<^const>\<open>version\<close> unfolded: the banner over the destructured options and over the outcome
  of the lookup, and the calls of that lookup.
\<close>

lemma version_eq:
  "version rt verData =
     (Inr (banner rt
             (destructure (case verData of None \<Rightarrow> Map.empty | Some d \<Rightarrow> d) ''version'' ''0.0.1 [DEFAULT]'')
             (destructure (case verData of None \<Rightarrow> Map.empty | Some d \<Rightarrow> d) ''copyrightName''
                ''Deno Dinosaur <deno@deno.land> [DEFAULT]'')
             (destructure (case verData of None \<Rightarrow> Map.empty | Some d \<Rightarrow> d) ''licenseUrl''
                ''https://github.com/<username_here>/ [DEFAULT]'')
             (destructure (case verData of None \<Rightarrow> Map.empty | Some d \<Rightarrow> d) ''crYear'' ''2021 [DEFAULT]'')
             (case fst (getFileModTime rt (mainModule rt)) of
                Inr t \<Rightarrow> t
              | Inl err \<Rightarrow> catchText err)),
      snd (getFileModTime rt (mainModule rt)))"
  by (simp add: version_def Let_def split: prod.splits)

lemma version_is_banner:
  "\<exists>v cn lu cy. fst (version rt verData) =
     Inr (banner rt v cn lu cy
            (case fst (getFileModTime rt (mainModule rt)) of Inr t \<Rightarrow> t | Inl err \<Rightarrow> catchText err))"
  unfolding version_eq fst_conv by blast

lemma banner_modified_line:
  "banner rt v cn lu cy t =
     (nl @ '' Application '' @ [CHR 0x27] @ basename rt (mainModule rt) @ [CHR 0x27]
        @ '' is version '' @ [CHR 0x27] @ v @ [CHR 0x27] @ ''.'')
     @ nl @ '' Last modified on: '' @ t @ nl
     @ ('' Running Deno version '' @ [CHR 0x27] @ denoVersion rt @ [CHR 0x27]
        @ '' on '' @ [CHR 0x27]
        @ templateString (toTitleCaseFirst (toUpperCase rt) (JStr (buildOs rt)))
        @ '' ['' @ buildArch rt @ '' with '' @ digits (hardwareConcurrency rt)
        @ '' CPU cores]'' @ [CHR 0x27] @ ''.'' @ nl
        @ '' Copyright (c) '' @ cy @ '' '' @ cn @ ''.'' @ nl
        @ nl
        @ '' For licenses and further information visit:'' @ nl
        @ ''   - '' @ lu @ nl
        @ ''   - https://deno.land/'' @ nl
        @ ''   '')"
  by (simp add: banner_def)

lemma banner_includes_modified_line:
  "strIncludes (banner rt v cn lu cy t) (nl @ '' Last modified on: '' @ t @ nl)"
proof (rule strIncludesI)
  show "banner rt v cn lu cy t =
     (nl @ '' Application '' @ [CHR 0x27] @ basename rt (mainModule rt) @ [CHR 0x27]
        @ '' is version '' @ [CHR 0x27] @ v @ [CHR 0x27] @ ''.'')
     @ (nl @ '' Last modified on: '' @ t @ nl)
     @ ('' Running Deno version '' @ [CHR 0x27] @ denoVersion rt @ [CHR 0x27]
        @ '' on '' @ [CHR 0x27]
        @ templateString (toTitleCaseFirst (toUpperCase rt) (JStr (buildOs rt)))
        @ '' ['' @ buildArch rt @ '' with '' @ digits (hardwareConcurrency rt)
        @ '' CPU cores]'' @ [CHR 0x27] @ ''.'' @ nl
        @ '' Copyright (c) '' @ cy @ '' '' @ cn @ ''.'' @ nl
        @ nl
        @ '' For licenses and further information visit:'' @ nl
        @ ''   - '' @ lu @ nl
        @ ''   - https://deno.land/'' @ nl
        @ ''   '')"
    by (simp add: banner_def)
qed

lemma banner_includes_version:
  "strIncludes (banner rt v cn lu cy t) (''version '' @ [CHR 0x27] @ v @ [CHR 0x27])"
proof (rule strIncludesI)
  show "banner rt v cn lu cy t =
     (nl @ '' Application '' @ [CHR 0x27] @ basename rt (mainModule rt) @ [CHR 0x27] @ '' is '')
     @ (''version '' @ [CHR 0x27] @ v @ [CHR 0x27])
     @ (''.'' @ nl
        @ '' Last modified on: '' @ t @ nl
        @ '' Running Deno version '' @ [CHR 0x27] @ denoVersion rt @ [CHR 0x27]
        @ '' on '' @ [CHR 0x27]
        @ templateString (toTitleCaseFirst (toUpperCase rt) (JStr (buildOs rt)))
        @ '' ['' @ buildArch rt @ '' with '' @ digits (hardwareConcurrency rt)
        @ '' CPU cores]'' @ [CHR 0x27] @ ''.'' @ nl
        @ '' Copyright (c) '' @ cy @ '' '' @ cn @ ''.'' @ nl
        @ nl
        @ '' For licenses and further information visit:'' @ nl
        @ ''   - '' @ lu @ nl
        @ ''   - https://deno.land/'' @ nl
        @ ''   '')"
    by (simp add: banner_def)
qed

lemma banner_includes_copyright:
  "strIncludes (banner rt v cn lu cy t) (''Copyright (c) '' @ cy @ '' '' @ cn @ ''.'')"
proof (rule strIncludesI)
  show "banner rt v cn lu cy t =
     (nl @ '' Application '' @ [CHR 0x27] @ basename rt (mainModule rt) @ [CHR 0x27]
        @ '' is version '' @ [CHR 0x27] @ v @ [CHR 0x27] @ ''.'' @ nl
        @ '' Last modified on: '' @ t @ nl
        @ '' Running Deno version '' @ [CHR 0x27] @ denoVersion rt @ [CHR 0x27]
        @ '' on '' @ [CHR 0x27]
        @ templateString (toTitleCaseFirst (toUpperCase rt) (JStr (buildOs rt)))
        @ '' ['' @ buildArch rt @ '' with '' @ digits (hardwareConcurrency rt)
        @ '' CPU cores]'' @ [CHR 0x27] @ ''.'' @ nl @ '' '')
     @ (''Copyright (c) '' @ cy @ '' '' @ cn @ ''.'')
     @ (nl
        @ nl
        @ '' For licenses and further information visit:'' @ nl
        @ ''   - '' @ lu @ nl
        @ ''   - https://deno.land/'' @ nl
        @ ''   '')"
    by (simp add: banner_def)
qed

lemma banner_includes_licenseUrl:
  "strIncludes (banner rt v cn lu cy t) lu"
proof (rule strIncludesI)
  show "banner rt v cn lu cy t =
     (nl @ '' Application '' @ [CHR 0x27] @ basename rt (mainModule rt) @ [CHR 0x27]
        @ '' is version '' @ [CHR 0x27] @ v @ [CHR 0x27] @ ''.'' @ nl
        @ '' Last modified on: '' @ t @ nl
        @ '' Running Deno version '' @ [CHR 0x27] @ denoVersion rt @ [CHR 0x27]
        @ '' on '' @ [CHR 0x27]
        @ templateString (toTitleCaseFirst (toUpperCase rt) (JStr (buildOs rt)))
        @ '' ['' @ buildArch rt @ '' with '' @ digits (hardwareConcurrency rt)
        @ '' CPU cores]'' @ [CHR 0x27] @ ''.'' @ nl
        @ '' Copyright (c) '' @ cy @ '' '' @ cn @ ''.'' @ nl
        @ nl
        @ '' For licenses and further information visit:'' @ nl
        @ ''   - '')
     @ lu
     @ (nl @ ''   - https://deno.land/'' @ nl @ ''   '')"
    by (simp add: banner_def)
qed

text \<open>
  Claim C1. For every host and every options argument, none included, the promise that
  \<^const>\<open>version\<close> returns is fulfilled with a string, never rejected. When the lookup of the
  modification time rejects with an Error, the message of that Error is the text of the
  \<^verbatim>\<open>Last modified on:\<close> line of the string.
\<close>

theorem version_never_rejects:
  "\<exists>out. fst (version rt verData) = Inr out
     \<and> (\<forall>message. fst (getFileModTime rt (mainModule rt)) = Inl (Error message)
          \<longrightarrow> strIncludes out (nl @ '' Last modified on: '' @ message @ nl))"
proof -
  let ?t = "case fst (getFileModTime rt (mainModule rt)) of Inr t \<Rightarrow> t | Inl err \<Rightarrow> catchText err"
  from version_is_banner obtain v cn lu cy
    where eq: "fst (version rt verData) = Inr (banner rt v cn lu cy ?t)"
    by blast
  have "strIncludes (banner rt v cn lu cy ?t) (nl @ '' Last modified on: '' @ message @ nl)"
    if "fst (getFileModTime rt (mainModule rt)) = Inl (Error message)" for message
  proof -
    from that have "?t = message" by (simp add: catchText_def)
    then show ?thesis using banner_includes_modified_line [of rt v cn lu cy ?t] by simp
  qed
  with eq show ?thesis by blast
qed

theorem version_never_rejects_witness:
  "fst (getFileModTime remoteHost (mainModule remoteHost)) = Inl (Error ''UNKNOWN due to remote execution.'')
   \<and> (\<exists>out. fst (version remoteHost None) = Inr out
         \<and> strIncludes out (nl @ '' Last modified on: UNKNOWN due to remote execution.'' @ nl))"
proof -
  from version_never_rejects [of remoteHost None] obtain out
    where out: "fst (version remoteHost None) = Inr out"
      and all: "\<forall>message. fst (getFileModTime remoteHost (mainModule remoteHost)) = Inl (Error message)
             \<longrightarrow> strIncludes out (nl @ '' Last modified on: '' @ message @ nl)"
    by blast
  from all
  have "fst (getFileModTime remoteHost (mainModule remoteHost)) = Inl (Error ''UNKNOWN due to remote execution.'')
          \<longrightarrow> strIncludes out (nl @ '' Last modified on: '' @ ''UNKNOWN due to remote execution.'' @ nl)"
    by (rule spec)
  from this remoteHost_rejects
  have "strIncludes out (nl @ '' Last modified on: '' @ ''UNKNOWN due to remote execution.'' @ nl)"
    by (rule mp)
  then have "strIncludes out (nl @ '' Last modified on: UNKNOWN due to remote execution.'' @ nl)"
    by simp
  with out remoteHost_rejects show ?thesis by (intro conjI exI)
qed

text \<open>
  Claim C10. When the lookup inside \<^const>\<open>version\<close> rejects with an Error, the banner is the
  template with the message of the Error for the modification time; when it rejects with a value
  that is not an Error, the banner is the template with the text \<^verbatim>\<open>UNKNOWN unspecified error.\<close>
  there. The modification time of the template is what follows \<^verbatim>\<open>Last modified on:\<close> on a
  line of its own.
\<close>

theorem version_catch:
  "(let obj = (case verData of None \<Rightarrow> Map.empty | Some d \<Rightarrow> d);
        v = destructure obj ''version'' ''0.0.1 [DEFAULT]'';
        cn = destructure obj ''copyrightName'' ''Deno Dinosaur <deno@deno.land> [DEFAULT]'';
        lu = destructure obj ''licenseUrl'' ''https://github.com/<username_here>/ [DEFAULT]'';
        cy = destructure obj ''crYear'' ''2021 [DEFAULT]''
    in (fst (getFileModTime rt (mainModule rt)) = Inl (Error message) \<longrightarrow>
          fst (version rt verData) = Inr (banner rt v cn lu cy message))
     \<and> (fst (getFileModTime rt (mainModule rt)) = Inl (NonError x) \<longrightarrow>
          fst (version rt verData) = Inr (banner rt v cn lu cy ''UNKNOWN unspecified error.'')))
   \<and> (\<exists>before after.
         banner rt v' cn' lu' cy' t = before @ nl @ '' Last modified on: '' @ t @ nl @ after)"
proof (rule conjI)
  show "let obj = (case verData of None \<Rightarrow> Map.empty | Some d \<Rightarrow> d);
        v = destructure obj ''version'' ''0.0.1 [DEFAULT]'';
        cn = destructure obj ''copyrightName'' ''Deno Dinosaur <deno@deno.land> [DEFAULT]'';
        lu = destructure obj ''licenseUrl'' ''https://github.com/<username_here>/ [DEFAULT]'';
        cy = destructure obj ''crYear'' ''2021 [DEFAULT]''
    in (fst (getFileModTime rt (mainModule rt)) = Inl (Error message) \<longrightarrow>
          fst (version rt verData) = Inr (banner rt v cn lu cy message))
     \<and> (fst (getFileModTime rt (mainModule rt)) = Inl (NonError x) \<longrightarrow>
          fst (version rt verData) = Inr (banner rt v cn lu cy ''UNKNOWN unspecified error.''))"
    unfolding Let_def version_eq fst_conv by (simp add: catchText_def)
next
  show "\<exists>before after.
         banner rt v' cn' lu' cy' t = before @ nl @ '' Last modified on: '' @ t @ nl @ after"
    by (rule exI, rule exI, rule banner_modified_line)
qed

theorem version_catch_witness:
  "fst (getFileModTime remoteHost (mainModule remoteHost)) = Inl (Error ''UNKNOWN due to remote execution.'')
   \<and> fst (version remoteHost (Some demoOptions)) =
       Inr (banner remoteHost ''1.0.6'' ''John Doe <example.com>''
              ''https://github.com/example/my_application/'' ''2022''
              ''UNKNOWN due to remote execution.'')
   \<and> fst (getFileModTime throwingHost (mainModule throwingHost)) = Inl (NonError (JStr ''conversion refused''))
   \<and> fst (version throwingHost (Some demoOptions)) =
       Inr (banner throwingHost ''1.0.6'' ''John Doe <example.com>''
              ''https://github.com/example/my_application/'' ''2022''
              ''UNKNOWN unspecified error.'')"
  using version_catch [of "Some demoOptions" remoteHost "''UNKNOWN due to remote execution.''" "JStr ''conversion refused''"]
    version_catch [of "Some demoOptions" throwingHost "''UNKNOWN due to remote execution.''" "JStr ''conversion refused''"]
  by (simp add: Let_def remoteHost_rejects throwingHost_rejects demoOptions_simps)

text \<open>
  Claim C2. For every host and every options argument the string \<^const>\<open>version\<close> returns
  is these ten lines joined by line feeds: an empty line, the line of the file name and the
  version, the \<^verbatim>\<open>Last modified on:\<close> line, the line of the runtime, the operating system, the
  architecture and the number of cores, the copyright line with the year before the holder, an
  empty line, the heading of the references, the license URL of the caller, the fixed URL
  \<^verbatim>\<open>https://deno.land/\<close>, and a last line of three spaces; every line but the first starts
  with a space. With the options of the demonstration run the string contains
  \<^verbatim>\<open>version '1.0.6'\<close>, \<^verbatim>\<open>Copyright (c) 2022 John Doe <example.com>.\<close> and
  \<^verbatim>\<open>https://github.com/example/my_application/\<close>.
\<close>

theorem version_template:
  "(let obj = (case verData of None \<Rightarrow> Map.empty | Some d \<Rightarrow> d);
        fileModTime = (case fst (getFileModTime rt (mainModule rt)) of
                         Inr t \<Rightarrow> t | Inl err \<Rightarrow> catchText err)
    in fst (version rt verData) =
         Inr (joinLines
           [[],
            '' Application '' @ [CHR 0x27] @ basename rt (mainModule rt) @ [CHR 0x27]
              @ '' is version '' @ [CHR 0x27] @ destructure obj ''version'' ''0.0.1 [DEFAULT]''
              @ [CHR 0x27] @ ''.'',
            '' Last modified on: '' @ fileModTime,
            '' Running Deno version '' @ [CHR 0x27] @ denoVersion rt @ [CHR 0x27]
              @ '' on '' @ [CHR 0x27]
              @ templateString (toTitleCaseFirst (toUpperCase rt) (JStr (buildOs rt)))
              @ '' ['' @ buildArch rt @ '' with '' @ digits (hardwareConcurrency rt)
              @ '' CPU cores]'' @ [CHR 0x27] @ ''.'',
            '' Copyright (c) '' @ destructure obj ''crYear'' ''2021 [DEFAULT]'' @ '' ''
              @ destructure obj ''copyrightName'' ''Deno Dinosaur <deno@deno.land> [DEFAULT]'' @ ''.'',
            [],
            '' For licenses and further information visit:'',
            ''   - '' @ destructure obj ''licenseUrl'' ''https://github.com/<username_here>/ [DEFAULT]'',
            ''   - https://deno.land/'',
            ''   '']))
   \<and> (\<exists>out. fst (version rt (Some demoOptions)) = Inr out
         \<and> strIncludes out (''version '1.0.6'' @ [CHR 0x27])
         \<and> strIncludes out ''Copyright (c) 2022 John Doe <example.com>.''
         \<and> strIncludes out ''https://github.com/example/my_application/'')"
proof (rule conjI)
  show "let obj = (case verData of None \<Rightarrow> Map.empty | Some d \<Rightarrow> d);
        fileModTime = (case fst (getFileModTime rt (mainModule rt)) of
                         Inr t \<Rightarrow> t | Inl err \<Rightarrow> catchText err)
    in fst (version rt verData) =
         Inr (joinLines
           [[],
            '' Application '' @ [CHR 0x27] @ basename rt (mainModule rt) @ [CHR 0x27]
              @ '' is version '' @ [CHR 0x27] @ destructure obj ''version'' ''0.0.1 [DEFAULT]''
              @ [CHR 0x27] @ ''.'',
            '' Last modified on: '' @ fileModTime,
            '' Running Deno version '' @ [CHR 0x27] @ denoVersion rt @ [CHR 0x27]
              @ '' on '' @ [CHR 0x27]
              @ templateString (toTitleCaseFirst (toUpperCase rt) (JStr (buildOs rt)))
              @ '' ['' @ buildArch rt @ '' with '' @ digits (hardwareConcurrency rt)
              @ '' CPU cores]'' @ [CHR 0x27] @ ''.'',
            '' Copyright (c) '' @ destructure obj ''crYear'' ''2021 [DEFAULT]'' @ '' ''
              @ destructure obj ''copyrightName'' ''Deno Dinosaur <deno@deno.land> [DEFAULT]'' @ ''.'',
            [],
            '' For licenses and further information visit:'',
            ''   - '' @ destructure obj ''licenseUrl'' ''https://github.com/<username_here>/ [DEFAULT]'',
            ''   - https://deno.land/'',
            ''   ''])"
    unfolding Let_def version_eq fst_conv by (simp add: banner_def)
next
  let ?t = "case fst (getFileModTime rt (mainModule rt)) of Inr t \<Rightarrow> t | Inl err \<Rightarrow> catchText err"
  let ?out = "banner rt ''1.0.6'' ''John Doe <example.com>''
                ''https://github.com/example/my_application/'' ''2022'' ?t"
  have out: "fst (version rt (Some demoOptions)) = Inr ?out"
    unfolding version_eq fst_conv by (simp add: demoOptions_simps)
  have v: "strIncludes ?out (''version '1.0.6'' @ [CHR 0x27])"
    using banner_includes_version [of rt "''1.0.6''" "''John Doe <example.com>''"
        "''https://github.com/example/my_application/''" "''2022''" ?t]
    by simp
  have c: "strIncludes ?out ''Copyright (c) 2022 John Doe <example.com>.''"
    using banner_includes_copyright [of rt "''1.0.6''" "''John Doe <example.com>''"
        "''https://github.com/example/my_application/''" "''2022''" ?t]
    by simp
  have l: "strIncludes ?out ''https://github.com/example/my_application/''"
    by (rule banner_includes_licenseUrl)
  from out v c l
  show "\<exists>out. fst (version rt (Some demoOptions)) = Inr out
         \<and> strIncludes out (''version '1.0.6'' @ [CHR 0x27])
         \<and> strIncludes out ''Copyright (c) 2022 John Doe <example.com>.''
         \<and> strIncludes out ''https://github.com/example/my_application/''"
    by (intro exI conjI)
qed

theorem version_template_witness:
  "fst (version localHost (Some demoOptions)) =
     Inr (joinLines
       [[],
        '' Application 'qpass.ts' is version '1.0.6'.'',
        '' Last modified on: Mon, 25 Aug 2025 13:18:17 GMT'',
        '' Running Deno version '2.4.4' on 'Darwin [aarch64 with 14 CPU cores]'.'',
        '' Copyright (c) 2022 John Doe <example.com>.'',
        [],
        '' For licenses and further information visit:'',
        ''   - https://github.com/example/my_application/'',
        ''   - https://deno.land/'',
        ''   ''])"
  using version_template [of "Some demoOptions" localHost]
  by (simp add: Let_def demoOptions_simps localHost_basename localHost_os localHost_fileModTime
      localHost_simps digits_14)

text \<open>
  Claim C3, as amended. For every host and every options argument, the string that
  \<^const>\<open>version\<close> returns is the template filled, for each of the four keys, with the string
  the options object binds to that key, the empty string included, and with the default
  literal where the key is missing or bound to \<^verbatim>\<open>undefined\<close>; nothing of the object but
  these four properties is read. The string of the call without an argument contains
  \<^verbatim>\<open>0.0.1 [DEFAULT]\<close>.
\<close>

theorem version_defaults:
  "(let obj = (case verData of None \<Rightarrow> Map.empty | Some d \<Rightarrow> d);
        fileModTime = (case fst (getFileModTime rt (mainModule rt)) of
                         Inr t \<Rightarrow> t | Inl err \<Rightarrow> catchText err)
    in fst (version rt verData) =
         Inr (nl
           @ '' Application '' @ [CHR 0x27] @ basename rt (mainModule rt) @ [CHR 0x27]
           @ '' is version '' @ [CHR 0x27]
           @ (case obj ''version'' of
                Some (StringValue supplied) \<Rightarrow> supplied
              | Some UndefinedValue \<Rightarrow> ''0.0.1 [DEFAULT]''
              | None \<Rightarrow> ''0.0.1 [DEFAULT]'')
           @ [CHR 0x27] @ ''.'' @ nl
           @ '' Last modified on: '' @ fileModTime @ nl
           @ '' Running Deno version '' @ [CHR 0x27] @ denoVersion rt @ [CHR 0x27]
           @ '' on '' @ [CHR 0x27]
           @ templateString (toTitleCaseFirst (toUpperCase rt) (JStr (buildOs rt)))
           @ '' ['' @ buildArch rt @ '' with '' @ digits (hardwareConcurrency rt)
           @ '' CPU cores]'' @ [CHR 0x27] @ ''.'' @ nl
           @ '' Copyright (c) ''
           @ (case obj ''crYear'' of
                Some (StringValue supplied) \<Rightarrow> supplied
              | Some UndefinedValue \<Rightarrow> ''2021 [DEFAULT]''
              | None \<Rightarrow> ''2021 [DEFAULT]'')
           @ '' ''
           @ (case obj ''copyrightName'' of
                Some (StringValue supplied) \<Rightarrow> supplied
              | Some UndefinedValue \<Rightarrow> ''Deno Dinosaur <deno@deno.land> [DEFAULT]''
              | None \<Rightarrow> ''Deno Dinosaur <deno@deno.land> [DEFAULT]'')
           @ ''.'' @ nl
           @ nl
           @ '' For licenses and further information visit:'' @ nl
           @ ''   - ''
           @ (case obj ''licenseUrl'' of
                Some (StringValue supplied) \<Rightarrow> supplied
              | Some UndefinedValue \<Rightarrow> ''https://github.com/<username_here>/ [DEFAULT]''
              | None \<Rightarrow> ''https://github.com/<username_here>/ [DEFAULT]'')
           @ nl
           @ ''   - https://deno.land/'' @ nl
           @ ''   ''))
   \<and> (\<exists>out. fst (version rt None) = Inr out \<and> strIncludes out ''0.0.1 [DEFAULT]'')"
proof (rule conjI)
  have d: "destructure obj key dflt =
             (case obj key of
                Some (StringValue supplied) \<Rightarrow> supplied
              | Some UndefinedValue \<Rightarrow> dflt
              | None \<Rightarrow> dflt)" for obj key dflt
    by (simp add: destructure_def split: option.splits property.splits)
  show "let obj = (case verData of None \<Rightarrow> Map.empty | Some d \<Rightarrow> d);
        fileModTime = (case fst (getFileModTime rt (mainModule rt)) of
                         Inr t \<Rightarrow> t | Inl err \<Rightarrow> catchText err)
    in fst (version rt verData) =
         Inr (nl
           @ '' Application '' @ [CHR 0x27] @ basename rt (mainModule rt) @ [CHR 0x27]
           @ '' is version '' @ [CHR 0x27]
           @ (case obj ''version'' of
                Some (StringValue supplied) \<Rightarrow> supplied
              | Some UndefinedValue \<Rightarrow> ''0.0.1 [DEFAULT]''
              | None \<Rightarrow> ''0.0.1 [DEFAULT]'')
           @ [CHR 0x27] @ ''.'' @ nl
           @ '' Last modified on: '' @ fileModTime @ nl
           @ '' Running Deno version '' @ [CHR 0x27] @ denoVersion rt @ [CHR 0x27]
           @ '' on '' @ [CHR 0x27]
           @ templateString (toTitleCaseFirst (toUpperCase rt) (JStr (buildOs rt)))
           @ '' ['' @ buildArch rt @ '' with '' @ digits (hardwareConcurrency rt)
           @ '' CPU cores]'' @ [CHR 0x27] @ ''.'' @ nl
           @ '' Copyright (c) ''
           @ (case obj ''crYear'' of
                Some (StringValue supplied) \<Rightarrow> supplied
              | Some UndefinedValue \<Rightarrow> ''2021 [DEFAULT]''
              | None \<Rightarrow> ''2021 [DEFAULT]'')
           @ '' ''
           @ (case obj ''copyrightName'' of
                Some (StringValue supplied) \<Rightarrow> supplied
              | Some UndefinedValue \<Rightarrow> ''Deno Dinosaur <deno@deno.land> [DEFAULT]''
              | None \<Rightarrow> ''Deno Dinosaur <deno@deno.land> [DEFAULT]'')
           @ ''.'' @ nl
           @ nl
           @ '' For licenses and further information visit:'' @ nl
           @ ''   - ''
           @ (case obj ''licenseUrl'' of
                Some (StringValue supplied) \<Rightarrow> supplied
              | Some UndefinedValue \<Rightarrow> ''https://github.com/<username_here>/ [DEFAULT]''
              | None \<Rightarrow> ''https://github.com/<username_here>/ [DEFAULT]'')
           @ nl
           @ ''   - https://deno.land/'' @ nl
           @ ''   '')"
    unfolding Let_def version_eq fst_conv d by (simp add: banner_def)
next
  let ?t = "case fst (getFileModTime rt (mainModule rt)) of Inr t \<Rightarrow> t | Inl err \<Rightarrow> catchText err"
  let ?out = "banner rt ''0.0.1 [DEFAULT]'' ''Deno Dinosaur <deno@deno.land> [DEFAULT]''
                ''https://github.com/<username_here>/ [DEFAULT]'' ''2021 [DEFAULT]'' ?t"
  have out: "fst (version rt None) = Inr ?out"
    unfolding version_eq fst_conv by (simp add: destructure_empty)
  have "strIncludes ?out ''0.0.1 [DEFAULT]''"
  proof (rule strIncludesI)
    show "?out =
       (nl @ '' Application '' @ [CHR 0x27] @ basename rt (mainModule rt) @ [CHR 0x27]
          @ '' is version '' @ [CHR 0x27])
       @ ''0.0.1 [DEFAULT]''
       @ ([CHR 0x27] @ ''.'' @ nl
          @ '' Last modified on: '' @ ?t @ nl
          @ '' Running Deno version '' @ [CHR 0x27] @ denoVersion rt @ [CHR 0x27]
          @ '' on '' @ [CHR 0x27]
          @ templateString (toTitleCaseFirst (toUpperCase rt) (JStr (buildOs rt)))
          @ '' ['' @ buildArch rt @ '' with '' @ digits (hardwareConcurrency rt)
          @ '' CPU cores]'' @ [CHR 0x27] @ ''.'' @ nl
          @ '' Copyright (c) 2021 [DEFAULT] Deno Dinosaur <deno@deno.land> [DEFAULT].'' @ nl
          @ nl
          @ '' For licenses and further information visit:'' @ nl
          @ ''   - https://github.com/<username_here>/ [DEFAULT]'' @ nl
          @ ''   - https://deno.land/'' @ nl
          @ ''   '')"
      by (simp add: banner_def)
  qed
  with out show "\<exists>out. fst (version rt None) = Inr out \<and> strIncludes out ''0.0.1 [DEFAULT]''"
    by (intro exI conjI)
qed

theorem version_defaults_witness:
  "fst (version localHost (Some sparseOptions)) =
     Inr (joinLines
       [[],
        '' Application 'qpass.ts' is version '' @ [CHR 0x27, CHR 0x27] @ ''.'',
        '' Last modified on: Mon, 25 Aug 2025 13:18:17 GMT'',
        '' Running Deno version '2.4.4' on 'Darwin [aarch64 with 14 CPU cores]'.'',
        '' Copyright (c) 2023-2025 Deno Dinosaur <deno@deno.land> [DEFAULT].'',
        [],
        '' For licenses and further information visit:'',
        ''   - https://github.com/<username_here>/ [DEFAULT]'',
        ''   - https://deno.land/'',
        ''   ''])"
  using version_defaults [of "Some sparseOptions" localHost, THEN conjunct1]
  by (simp add: Let_def sparseOptions_simps localHost_basename localHost_os localHost_fileModTime
      localHost_simps digits_14)

text \<open>
  The claim as first stated, that every present key overrides its default, whatever falsy value
  it is bound to, is false: in the options object below the key \<^verbatim>\<open>licenseUrl\<close> is present and
  bound to \<^verbatim>\<open>undefined\<close>, and the string returned on \<^const>\<open>localHost\<close> shows the default
  license URL.
\<close>

theorem version_undefined_key_takes_default:
  "[''licenseUrl'' \<mapsto> UndefinedValue] ''licenseUrl'' = Some UndefinedValue
   \<and> fst (version localHost (Some [''licenseUrl'' \<mapsto> UndefinedValue])) =
       Inr (joinLines
         [[],
          '' Application 'qpass.ts' is version '0.0.1 [DEFAULT]'.'',
          '' Last modified on: Mon, 25 Aug 2025 13:18:17 GMT'',
          '' Running Deno version '2.4.4' on 'Darwin [aarch64 with 14 CPU cores]'.'',
          '' Copyright (c) 2021 [DEFAULT] Deno Dinosaur <deno@deno.land> [DEFAULT].'',
          [],
          '' For licenses and further information visit:'',
          ''   - https://github.com/<username_here>/ [DEFAULT]'',
          ''   - https://deno.land/'',
          ''   ''])"
  unfolding version_eq fst_conv
  by (simp add: destructure_def banner_def localHost_basename localHost_os localHost_fileModTime
      localHost_simps digits_14)

end
